theory Spec2Isabelle
  imports Main
begin

section \<open>JavaScript strings\<close>

text \<open>
  A JavaScript string is modelled as a \<^typ>\<open>string\<close>, one \<^typ>\<open>char\<close> per code unit.
  Only code units below 256 can be written, so the white space of \<open>trim\<close> and of the
  regular expression class \<open>\s\<close> is the part of it below 256, and the line terminators
  that \<open>.\<close> refuses are line feed and carriage return.
\<close>

definition dq :: char where
  "dq = CHR 0x22"

definition bslash :: char where
  "bslash = CHR 0x5C"

definition isSpace :: "char \<Rightarrow> bool" where
  "isSpace c = (c \<in> set [CHR 0x09, CHR 0x0A, CHR 0x0B, CHR 0x0C, CHR 0x0D, CHR 0x20, CHR 0xA0])"

definition isLineTerminator :: "char \<Rightarrow> bool" where
  "isLineTerminator c = (c = CHR 0x0A \<or> c = CHR 0x0D)"

definition isDigit :: "char \<Rightarrow> bool" where
  "isDigit c = (c \<in> set ''0123456789'')"

definition isLower :: "char \<Rightarrow> bool" where
  "isLower c = (c \<in> set ''abcdefghijklmnopqrstuvwxyz'')"

definition isUpper :: "char \<Rightarrow> bool" where
  "isUpper c = (c \<in> set ''ABCDEFGHIJKLMNOPQRSTUVWXYZ'')"

definition isAlpha :: "char \<Rightarrow> bool" where
  "isAlpha c = (isLower c \<or> isUpper c)"

text \<open>The class \<open>[a-f0-9]\<close> under the flag \<open>i\<close>.\<close>

definition isHex :: "char \<Rightarrow> bool" where
  "isHex c = (isDigit c \<or> c \<in> set ''abcdefABCDEF'')"

text \<open>The class \<open>\w\<close>.\<close>

definition isWordChar :: "char \<Rightarrow> bool" where
  "isWordChar c = (isAlpha c \<or> isDigit c \<or> c = CHR ''_'')"

definition toLowerChar :: "char \<Rightarrow> char" where
  "toLowerChar c =
     (case map_of (zip ''ABCDEFGHIJKLMNOPQRSTUVWXYZ'' ''abcdefghijklmnopqrstuvwxyz'') c of
        Some l \<Rightarrow> l
      | None \<Rightarrow> c)"

definition toLowerCase :: "string \<Rightarrow> string" where
  "toLowerCase s = map toLowerChar s"

definition trim :: "string \<Rightarrow> string" where
  "trim s = rev (dropWhile isSpace (rev (dropWhile isSpace s)))"

definition startsWith :: "string \<Rightarrow> string \<Rightarrow> bool" where
  "startsWith s p = (take (length p) s = p)"

definition endsWith :: "string \<Rightarrow> string \<Rightarrow> bool" where
  "endsWith s p = (length p \<le> length s \<and> drop (length s - length p) s = p)"

text \<open>\<open>s.split(',')\<close>: every comma separates, and the empty string gives one empty piece.\<close>

fun split_comma :: "string \<Rightarrow> string list" where
  "split_comma [] = [[]]"
| "split_comma (c # cs) =
     (if c = CHR '','' then [] # split_comma cs
      else (case split_comma cs of
              [] \<Rightarrow> [[c]]
            | w # ws \<Rightarrow> (c # w) # ws))"

text \<open>\<open>s.split(/\s+/)\<close>: a run of white space separates.\<close>

function split_ws :: "string \<Rightarrow> string list" where
  "split_ws s =
     (let w = takeWhile (\<lambda>c. \<not> isSpace c) s; r = dropWhile (\<lambda>c. \<not> isSpace c) s
      in if r = [] then [w] else w # split_ws (dropWhile isSpace r))"
  by pat_completeness auto
termination
proof (relation "measure length")
  show "wf (measure length)" by simp
next
  fix s :: string and w r
  assume r: "r = dropWhile (\<lambda>c. \<not> isSpace c) s" and ne: "r \<noteq> []"
  have "length (dropWhile isSpace r) < length r"
    using ne r by (metis dropWhile_eq_Cons_conv hd_Cons_tl hd_dropWhile length_dropWhile_le
        dropWhile.simps(2) impossible_Cons le_neq_implies_less)
  moreover have "length r \<le> length s"
    using r by (simp add: length_dropWhile_le)
  ultimately show "(dropWhile isSpace r, s) \<in> measure length" by simp
qed

text \<open>\<open>xs.join(sep)\<close>.\<close>

fun join :: "string \<Rightarrow> string list \<Rightarrow> string" where
  "join sep [] = []"
| "join sep [x] = x"
| "join sep (x # y # ys) = x @ sep @ join sep (y # ys)"

text \<open>\<open>String(n)\<close> for an integer \<open>n\<close>.\<close>

function show_nat :: "nat \<Rightarrow> string" where
  "show_nat n =
     (if n < 10 then [''0123456789'' ! n]
      else show_nat (n div 10) @ [''0123456789'' ! (n mod 10)])"
  by pat_completeness auto
termination
  by (relation "measure id") auto

declare show_nat.simps [simp del]

definition show_int :: "int \<Rightarrow> string" where
  "show_int i = (if i < 0 then CHR ''-'' # show_nat (nat (- i)) else show_nat (nat i))"

text \<open>\<open>text.replace(/"/g, '\\"')\<close>: a backslash goes before every double quote.\<close>

fun escape_quotes :: "string \<Rightarrow> string" where
  "escape_quotes [] = []"
| "escape_quotes (c # cs) =
     (if c = dq then bslash # dq # escape_quotes cs else c # escape_quotes cs)"

text \<open>\<open>text.replace(/\\"/g, '"')\<close>: every backslash before a double quote goes.\<close>

fun unescape_quotes :: "string \<Rightarrow> string" where
  "unescape_quotes (a # b # cs) =
     (if a = bslash \<and> b = dq then dq # unescape_quotes cs
      else a # unescape_quotes (b # cs))"
| "unescape_quotes cs = cs"


section \<open>Selector generation (content script)\<close>

subsection \<open>The stability filters\<close>

definition isAlnum :: "char \<Rightarrow> bool" where
  "isAlnum c = (isAlpha c \<or> isDigit c)"

text \<open>\<open>/^[a-f0-9-]{36}$/i\<close>\<close>

definition looks_uuid :: "string \<Rightarrow> bool" where
  "looks_uuid s = (length s = 36 \<and> list_all (\<lambda>c. isHex c \<or> c = CHR ''-'') s)"

text \<open>\<open>/^:r[a-z0-9]+:$/i\<close>\<close>

definition looks_react :: "string \<Rightarrow> bool" where
  "looks_react s =
     (case s of
        c0 # c1 # r \<Rightarrow>
          c0 = CHR '':'' \<and> (c1 = CHR ''r'' \<or> c1 = CHR ''R'') \<and> r \<noteq> [] \<and> last r = CHR '':'' \<and>
          butlast r \<noteq> [] \<and> list_all isAlnum (butlast r)
      | _ \<Rightarrow> False)"

text \<open>\<open>/^\d+$/\<close>\<close>

definition looks_numeric :: "string \<Rightarrow> bool" where
  "looks_numeric s = (s \<noteq> [] \<and> list_all isDigit s)"

definition isStableId :: "string \<Rightarrow> bool" where
  "isStableId s =
     (if looks_uuid s then False
      else if looks_react s then False
      else if looks_numeric s then False
      else if length s > 50 then False
      else True)"

text \<open>\<open>/^[a-z]{1,3}-[a-f0-9]{4,}$/i\<close>: the letters before the dash are the longest run of
  letters the string starts with, since a dash is no letter.\<close>

definition looks_module_hash :: "string \<Rightarrow> bool" where
  "looks_module_hash s =
     (let p = takeWhile isAlpha s; r = drop (length p) s
      in 1 \<le> length p \<and> length p \<le> 3 \<and>
         (case r of
            d # h \<Rightarrow> d = CHR ''-'' \<and> 4 \<le> length h \<and> list_all isHex h
          | [] \<Rightarrow> False))"

text \<open>\<open>/^css-[a-z0-9]+$/i\<close>\<close>

definition looks_emotion :: "string \<Rightarrow> bool" where
  "looks_emotion s =
     (toLowerCase (take 4 s) = ''css-'' \<and> drop 4 s \<noteq> [] \<and> list_all isAlnum (drop 4 s))"

text \<open>\<open>/^sc-[a-zA-Z]+$/i\<close>\<close>

definition looks_styled :: "string \<Rightarrow> bool" where
  "looks_styled s =
     (toLowerCase (take 3 s) = ''sc-'' \<and> drop 3 s \<noteq> [] \<and> list_all isAlpha (drop 3 s))"

definition isStableClass :: "string \<Rightarrow> bool" where
  "isStableClass s =
     (if looks_module_hash s then False
      else if looks_emotion s then False
      else if looks_styled s then False
      else if length s > 30 then False
      else True)"

subsection \<open>The page\<close>

text \<open>
  An element object carries the properties the content script reads. \<open>el_id\<close>,
  \<open>el_name\<close> and \<open>placeholder\<close> are the properties \<open>element.id\<close>, \<open>element.name\<close> and
  \<open>element.placeholder\<close> (the empty string where the script would read an empty or an
  undefined value: it only tests them for truth). \<open>className\<close> is \<open>None\<close> where the
  property is not a string (an SVG element). The computed style and \<open>offsetParent\<close> are
  what \<open>isVisible\<close> reads.
\<close>

record element =
  tagName :: string
  el_id :: string
  attributes :: "(string \<times> string) list"
  el_name :: string
  className :: "string option"
  placeholder :: string
  textContent :: string
  parentElement :: "nat option"
  display :: string
  visibility :: string
  opacity :: string
  offsetParent :: "nat option"
  isContentEditable :: bool

text \<open>What a script may catch: a \<open>SyntaxError\<close> of the selector engine, a \<open>TypeError\<close>, or
  an \<open>Error\<close> with its message.\<close>

datatype exn = SyntaxError | TypeError | Error string

text \<open>
  A page is a snapshot of the document. Elements are object references
  (\<^typ>\<open>nat\<close>) into the store \<open>node\<close>. The browser's own functions are fields of the
  page, since they are no part of the extension: the selector engine
  \<open>document.querySelectorAll\<close> (matches in document order, or the exception it throws),
  \<open>CSS.escape\<close>, the \<open>pathname\<close> of \<open>new URL(href, window.location.origin)\<close>, and the
  \<open>children\<close> of an element.
\<close>

record page =
  node :: "nat \<Rightarrow> element"
  children :: "nat \<Rightarrow> nat list"
  querySelectorAll :: "string \<Rightarrow> exn + nat list"
  css_escape :: "string \<Rightarrow> string"
  url_pathname :: "string \<Rightarrow> exn + string"

definition getAttribute :: "element \<Rightarrow> string \<Rightarrow> string option" where
  "getAttribute el a = map_of (attributes el) a"

text \<open>\<open>document.querySelector\<close> is the first match of \<open>querySelectorAll\<close>, or \<open>null\<close>.\<close>

definition querySelector :: "page \<Rightarrow> string \<Rightarrow> exn + nat option" where
  "querySelector P sel =
     (case querySelectorAll P sel of
        Inl x \<Rightarrow> Inl x
      | Inr [] \<Rightarrow> Inr None
      | Inr (m # ms) \<Rightarrow> Inr (Some m))"

text \<open>\<open>xs.indexOf(x)\<close>\<close>

fun indexOf :: "nat list \<Rightarrow> nat \<Rightarrow> int" where
  "indexOf [] x = - 1"
| "indexOf (y # ys) x =
     (if y = x then 0 else (let i = indexOf ys x in if i < 0 then - 1 else i + 1))"

subsection \<open>getCssPath\<close>

text \<open>The classes of an element as the sibling comparison reads them.\<close>

definition class_words :: "element \<Rightarrow> string list" where
  "class_words el =
     (case className el of
        Some cn \<Rightarrow> if cn \<noteq> [] then split_ws (trim cn) else []
      | None \<Rightarrow> [])"

text \<open>The loop over \<open>uniqueAttrs\<close>: the first attribute whose selector matches once.\<close>

fun find_unique_attr :: "page \<Rightarrow> string \<Rightarrow> element \<Rightarrow> string list \<Rightarrow> exn + string option" where
  "find_unique_attr P selector el [] = Inr None"
| "find_unique_attr P selector el (attr # rest) =
     (case getAttribute el attr of
        None \<Rightarrow> find_unique_attr P selector el rest
      | Some v \<Rightarrow>
          if v = [] then find_unique_attr P selector el rest
          else (let attrSelector = selector @ ''['' @ attr @ ''='' @ [dq] @ css_escape P v @ [dq] @ '']''
                in case querySelectorAll P attrSelector of
                     Inl x \<Rightarrow> Inl x
                   | Inr ms \<Rightarrow>
                       if length ms = 1 then Inr (Some attrSelector)
                       else find_unique_attr P selector el rest))"

definition uniqueAttrs :: "string list" where
  "uniqueAttrs = [''data-testid'', ''data-test-id'', ''data-cy'', ''data-id'', ''name'',
     ''aria-label'', ''role'']"

text \<open>The selector of one level when no attribute is unique: tag, up to two stable
  classes, and \<open>:nth-of-type\<close> when a sibling of the same tag has the same classes.\<close>

definition level_selector :: "page \<Rightarrow> nat \<Rightarrow> string" where
  "level_selector P c =
     (let el = node P c;
          selector = toLowerCase (tagName el);
          selector1 =
            (case className el of
               None \<Rightarrow> selector
             | Some cn \<Rightarrow>
                 if cn = [] then selector
                 else (let stableClasses = take 2 (filter isStableClass (split_ws (trim cn)))
                       in if length stableClasses > 0
                          then selector @ ''.'' @ join ''.'' (map (css_escape P) stableClasses)
                          else selector))
      in case parentElement el of
           None \<Rightarrow> selector1
         | Some p \<Rightarrow>
             (let siblings = filter (\<lambda>s. tagName (node P s) = tagName el) (children P p)
              in if length siblings > 1
                 then (let matchingSiblings =
                             filter (\<lambda>sib. sib = c \<or>
                                join '' '' (class_words (node P sib)) = join '' '' (class_words el))
                               siblings
                       in if length matchingSiblings > 1
                          then selector1 @ '':nth-of-type('' @ show_int (indexOf siblings c + 1) @ '')''
                          else selector1)
                 else selector1))"

text \<open>The \<open>while\<close> loop of \<open>getCssPath\<close>, on the path built so far and the current
  element (\<open>None\<close> past the root). Every round puts one entry in front of the path and the
  loop leaves when the path has more than four, so it runs at most five times.\<close>

function getCssPath_loop :: "page \<Rightarrow> string list \<Rightarrow> nat option \<Rightarrow> exn + string list" where
  "getCssPath_loop P path None = Inr path"
| "getCssPath_loop P path (Some c) =
     (let el = node P c in
      if el_id el \<noteq> [] \<and> isStableId (el_id el)
      then Inr ((''#'' @ css_escape P (el_id el)) # path)
      else (case find_unique_attr P (toLowerCase (tagName el)) el uniqueAttrs of
              Inl x \<Rightarrow> Inl x
            | Inr found \<Rightarrow>
                (let path' = (case found of
                                Some attrSelector \<Rightarrow> attrSelector
                              | None \<Rightarrow> level_selector P c) # path
                 in if length path' > 4 then Inr path'
                    else getCssPath_loop P path' (parentElement el))))"
  by pat_completeness auto
termination
  by (relation "measure (\<lambda>(P, path, c). 5 - length path)") auto

definition getCssPath :: "page \<Rightarrow> nat \<Rightarrow> exn + string" where
  "getCssPath P e =
     (case getCssPath_loop P [] (Some e) of
        Inl x \<Rightarrow> Inl x
      | Inr path \<Rightarrow> Inr (join '' > '' path))"


subsection \<open>generateSelector\<close>

text \<open>
  \<open>generateSelector\<close> is a sequence of blocks, each of which returns a selector or falls
  through to the next. A block is a function \<open>by_\<dots>\<close> whose value \<open>None\<close> is falling
  through; \<open>from_\<dots>\<close> is the function from that block on. A block that queries the
  document can throw what the query throws.
\<close>

definition truthy :: "string option \<Rightarrow> bool" where
  "truthy v = (case v of Some s \<Rightarrow> s \<noteq> [] | None \<Rightarrow> False)"

definition attr_selector :: "page \<Rightarrow> string \<Rightarrow> string \<Rightarrow> string \<Rightarrow> string" where
  "attr_selector P pre attr v = pre @ ''['' @ attr @ ''='' @ [dq] @ css_escape P v @ [dq] @ '']''"

text \<open>Priority 1: ID (if unique and stable-looking)\<close>

definition by_id :: "page \<Rightarrow> nat \<Rightarrow> string option" where
  "by_id P e =
     (let el = node P e
      in if el_id el \<noteq> [] \<and> isStableId (el_id el)
         then Some (''#'' @ css_escape P (el_id el))
         else None)"

text \<open>Priority 2: data-testid or similar\<close>

definition by_test_marker :: "page \<Rightarrow> nat \<Rightarrow> string option" where
  "by_test_marker P e =
     (let el = node P e;
          testId =
            (if truthy (getAttribute el ''data-testid'') then getAttribute el ''data-testid''
             else if truthy (getAttribute el ''data-test-id'') then getAttribute el ''data-test-id''
             else if truthy (getAttribute el ''data-cy'') then getAttribute el ''data-cy''
             else getAttribute el ''data-id'')
      in case testId of
           None \<Rightarrow> None
         | Some v \<Rightarrow>
             if v = [] then None
             else (let attr =
                        (if truthy (getAttribute el ''data-testid'') then ''data-testid''
                         else if truthy (getAttribute el ''data-test-id'') then ''data-test-id''
                         else if truthy (getAttribute el ''data-cy'') then ''data-cy''
                         else ''data-id'')
                   in Some (attr_selector P [] attr v)))"

text \<open>Priority 3: name attribute (for form elements)\<close>

definition by_name :: "page \<Rightarrow> nat \<Rightarrow> string option" where
  "by_name P e =
     (let el = node P e
      in if el_name el \<noteq> [] \<and>
            (tagName el = ''INPUT'' \<or> tagName el = ''SELECT'' \<or> tagName el = ''TEXTAREA'')
         then Some (attr_selector P (toLowerCase (tagName el)) ''name'' (el_name el))
         else None)"

text \<open>Priority 4: Links with href\<close>

definition by_href :: "page \<Rightarrow> nat \<Rightarrow> exn + string option" where
  "by_href P e =
     (let el = node P e
      in if tagName el = ''A'' \<and> truthy (getAttribute el ''href'')
         then (case getAttribute el ''href'' of
                 None \<Rightarrow> Inr None
               | Some href \<Rightarrow>
                   if href \<noteq> [] \<and> href \<noteq> ''#'' \<and> \<not> startsWith href ''javascript:''
                   then (let selector = attr_selector P ''a'' ''href'' href
                         in case querySelectorAll P selector of
                              Inl x \<Rightarrow> Inl x
                            | Inr ms \<Rightarrow>
                                if length ms = 1 then Inr (Some selector)
                                else (case url_pathname P href of
                                        Inl x \<Rightarrow> Inl x
                                      | Inr pathname \<Rightarrow>
                                          if pathname \<noteq> [] \<and> pathname \<noteq> ''/''
                                          then (let partialSelector =
                                                      ''a[href*='' @ [dq] @ css_escape P pathname @ [dq] @ '']''
                                                in case querySelectorAll P partialSelector of
                                                     Inl x \<Rightarrow> Inl x
                                                   | Inr ms' \<Rightarrow>
                                                       if length ms' = 1 then Inr (Some partialSelector)
                                                       else Inr None)
                                          else Inr None))
                   else Inr None)
         else Inr None)"

text \<open>Priority 5: Buttons/links by text content\<close>

definition text_selector :: "string \<Rightarrow> string \<Rightarrow> string" where
  "text_selector tag txt = tag @ '':text('' @ [dq] @ escape_quotes txt @ [dq] @ '')''"

definition by_text :: "page \<Rightarrow> nat \<Rightarrow> exn + string option" where
  "by_text P e =
     (let el = node P e
      in if tagName el \<in> set [''BUTTON'', ''A'', ''SPAN'', ''DIV'']
         then (let txt = trim (textContent el)
               in if txt \<noteq> [] \<and> length txt > 0 \<and> length txt < 50
                  then (let tag = toLowerCase (tagName el)
                        in case querySelectorAll P tag of
                             Inl x \<Rightarrow> Inl x
                           | Inr candidates \<Rightarrow>
                               (let matches = filter (\<lambda>c. trim (textContent (node P c)) = txt) candidates
                                in if length matches = 1 then Inr (Some (text_selector tag txt))
                                   else Inr None))
                  else Inr None)
         else Inr None)"

text \<open>The blocks that keep an attribute selector when it matches exactly once.\<close>

definition if_unique :: "page \<Rightarrow> string \<Rightarrow> exn + string option" where
  "if_unique P selector =
     (case querySelectorAll P selector of
        Inl x \<Rightarrow> Inl x
      | Inr ms \<Rightarrow> if length ms = 1 then Inr (Some selector) else Inr None)"

text \<open>Priority 6: aria-label\<close>

definition by_aria_label :: "page \<Rightarrow> nat \<Rightarrow> exn + string option" where
  "by_aria_label P e =
     (case getAttribute (node P e) ''aria-label'' of
        None \<Rightarrow> Inr None
      | Some ariaLabel \<Rightarrow>
          if ariaLabel = [] then Inr None
          else if_unique P (attr_selector P [] ''aria-label'' ariaLabel))"

text \<open>Priority 7: title attribute\<close>

definition by_title :: "page \<Rightarrow> nat \<Rightarrow> exn + string option" where
  "by_title P e =
     (case getAttribute (node P e) ''title'' of
        None \<Rightarrow> Inr None
      | Some title \<Rightarrow>
          if title = [] then Inr None
          else if_unique P (attr_selector P [] ''title'' title))"

text \<open>Priority 8: Unique class combination\<close>

definition by_classes :: "page \<Rightarrow> nat \<Rightarrow> exn + string option" where
  "by_classes P e =
     (let el = node P e
      in case className el of
           None \<Rightarrow> Inr None
         | Some cn \<Rightarrow>
             if cn = [] then Inr None
             else (let classes = filter isStableClass (split_ws (trim cn))
                   in if length classes > 0
                      then if_unique P
                             (toLowerCase (tagName el) @ ''.'' @ join ''.'' (map (css_escape P) classes))
                      else Inr None))"

text \<open>Priority 9: Placeholder for inputs\<close>

definition by_placeholder :: "page \<Rightarrow> nat \<Rightarrow> exn + string option" where
  "by_placeholder P e =
     (let el = node P e
      in if tagName el = ''INPUT'' \<and> placeholder el \<noteq> []
         then if_unique P (attr_selector P ''input'' ''placeholder'' (placeholder el))
         else Inr None)"

text \<open>A block, then the rest when it falls through.\<close>

definition or_else :: "exn + string option \<Rightarrow> (exn + string) \<Rightarrow> exn + string" where
  "or_else r rest =
     (case r of
        Inl x \<Rightarrow> Inl x
      | Inr (Some selector) \<Rightarrow> Inr selector
      | Inr None \<Rightarrow> rest)"

text \<open>Priority 10: CSS path (fallback)\<close>

definition from_placeholder :: "page \<Rightarrow> nat \<Rightarrow> exn + string" where
  "from_placeholder P e = or_else (by_placeholder P e) (getCssPath P e)"

definition from_classes :: "page \<Rightarrow> nat \<Rightarrow> exn + string" where
  "from_classes P e = or_else (by_classes P e) (from_placeholder P e)"

definition from_title :: "page \<Rightarrow> nat \<Rightarrow> exn + string" where
  "from_title P e = or_else (by_title P e) (from_classes P e)"

definition from_aria_label :: "page \<Rightarrow> nat \<Rightarrow> exn + string" where
  "from_aria_label P e = or_else (by_aria_label P e) (from_title P e)"

definition from_text :: "page \<Rightarrow> nat \<Rightarrow> exn + string" where
  "from_text P e = or_else (by_text P e) (from_aria_label P e)"

definition from_href :: "page \<Rightarrow> nat \<Rightarrow> exn + string" where
  "from_href P e = or_else (by_href P e) (from_text P e)"

definition from_name :: "page \<Rightarrow> nat \<Rightarrow> exn + string" where
  "from_name P e = or_else (Inr (by_name P e)) (from_href P e)"

definition from_test_marker :: "page \<Rightarrow> nat \<Rightarrow> exn + string" where
  "from_test_marker P e = or_else (Inr (by_test_marker P e)) (from_name P e)"

definition generateSelector :: "page \<Rightarrow> nat \<Rightarrow> exn + string" where
  "generateSelector P e = or_else (Inr (by_id P e)) (from_test_marker P e)"

subsection \<open>The blocks in their order\<close>

text \<open>What the nine blocks before the fallback give on an element, in the order the
  function runs them, and the first of a list of results that does not fall
  through.\<close>

definition blocks :: "page \<Rightarrow> nat \<Rightarrow> (exn + string option) list" where
  "blocks P e =
     [Inr (by_id P e), Inr (by_test_marker P e), Inr (by_name P e), by_href P e, by_text P e,
      by_aria_label P e, by_title P e, by_classes P e, by_placeholder P e]"

fun first_hit :: "(exn + string option) list \<Rightarrow> (exn + string) \<Rightarrow> exn + string" where
  "first_hit [] rest = rest"
| "first_hit (r # rs) rest = or_else r (first_hit rs rest)"

section \<open>Element resolution (content script)\<close>

definition isVisible :: "element \<Rightarrow> bool" where
  "isVisible el =
     (display el \<noteq> ''none'' \<and> visibility el \<noteq> ''hidden'' \<and> opacity el \<noteq> ''0'' \<and>
      offsetParent el \<noteq> None)"

text \<open>\<open>sel.match(/^(\w+):text\("(.+)"\)$/)\<close>: the tag and the literal, or \<open>None\<close> for no
  match. The word characters before \<open>:text("\<close> are the longest run the string starts
  with, the string ends in \<open>")\<close>, and the literal between is not empty and has no line
  terminator.\<close>

definition textMatch :: "string \<Rightarrow> (string \<times> string) option" where
  "textMatch sel =
     (let tag = takeWhile isWordChar sel;
          r = drop (length tag) sel;
          body = drop 7 r;
          lit = take (length body - 2) body
      in if tag \<noteq> [] \<and> take 7 r = '':text('' @ [dq] \<and> 3 \<le> length body \<and>
            drop (length body - 2) body = [dq, CHR '')''] \<and>
            list_all (\<lambda>c. \<not> isLineTerminator c) lit
         then Some (tag, lit)
         else None)"

text \<open>One alternative at one poll: the body of the \<open>for\<close> loop over the alternatives,
  with the \<open>catch\<close> that turns an exception of the query into no match.\<close>

definition try_selector :: "page \<Rightarrow> string \<Rightarrow> nat option" where
  "try_selector P sel =
     (case textMatch sel of
        Some (tag, lit) \<Rightarrow>
          (case querySelectorAll P tag of
             Inl x \<Rightarrow> None
           | Inr candidates \<Rightarrow>
               find (\<lambda>c. trim (textContent (node P c)) = unescape_quotes lit \<and> isVisible (node P c))
                 candidates)
      | None \<Rightarrow>
          (case querySelector P sel of
             Inl x \<Rightarrow> None
           | Inr None \<Rightarrow> None
           | Inr (Some m) \<Rightarrow> if isVisible (node P m) then Some m else None))"

fun poll :: "page \<Rightarrow> string list \<Rightarrow> nat option" where
  "poll P [] = None"
| "poll P (sel # sels) =
     (case try_selector P sel of
        Some m \<Rightarrow> Some m
      | None \<Rightarrow> poll P sels)"

text \<open>
  Time is a clock in milliseconds, read by \<open>Date.now()\<close>. The document at each instant
  is \<open>page_at\<close>. \<open>sleep(ms)\<close> resumes \<open>ms\<close> milliseconds later or later still: \<open>lag\<close> is how
  late the timer set at an instant fires. The other fields say which calls of the
  browser throw on which element, and what the \<open>value\<close> setters of the two prototypes
  are: \<open>None\<close> for a property descriptor without a setter, else what calling the setter
  on an element object throws (\<open>None\<close> for a call that sets the value).
\<close>

record runtime =
  page_at :: "int \<Rightarrow> page"
  lag :: "int \<Rightarrow> nat"
  scroll_throws :: "nat \<Rightarrow> bool"
  click_throws :: "nat \<Rightarrow> bool"
  focus_throws :: "nat \<Rightarrow> bool"
  input_value_setter :: "(element \<Rightarrow> exn option) option"
  textarea_value_setter :: "(element \<Rightarrow> exn option) option"

definition sleep :: "runtime \<Rightarrow> int \<Rightarrow> int \<Rightarrow> int" where
  "sleep R ms now = now + max ms 0 + int (lag R now)"

text \<open>The \<open>while\<close> loop of \<open>waitForElement\<close>: the element found, or \<open>None\<close> for \<open>null\<close>,
  and the instant of the return.\<close>

function waitLoop :: "runtime \<Rightarrow> string list \<Rightarrow> int \<Rightarrow> int \<Rightarrow> int \<Rightarrow> nat option \<times> int" where
  "waitLoop R selectors start timeout now =
     (if now - start < timeout
      then (case poll (page_at R now) selectors of
              Some m \<Rightarrow> (Some m, now)
            | None \<Rightarrow> waitLoop R selectors start timeout (sleep R 100 now))
      else (None, now))"
  by pat_completeness auto
termination
  by (relation "measure (\<lambda>(R, selectors, start, timeout, now). nat (start + timeout - now))")
     (auto simp: sleep_def)

declare waitLoop.simps [simp del]

definition waitForElement :: "runtime \<Rightarrow> string \<Rightarrow> int \<Rightarrow> int \<Rightarrow> nat option \<times> int" where
  "waitForElement R selector timeout now =
     waitLoop R (map trim (split_comma selector)) now timeout now"


section \<open>Step execution (content script)\<close>

text \<open>The \<open>value\<close> of a step: missing, \<open>null\<close> (a recorded click), or a string. A
  number is written as the string every use of the value turns it into.\<close>

datatype jsval = Undefined | Null | Str string

definition to_string :: "jsval \<Rightarrow> string" where
  "to_string v = (case v of Undefined \<Rightarrow> ''undefined'' | Null \<Rightarrow> ''null'' | Str s \<Rightarrow> s)"

definition falsy :: "jsval \<Rightarrow> bool" where
  "falsy v = (case v of Undefined \<Rightarrow> True | Null \<Rightarrow> True | Str s \<Rightarrow> s = [])"

text \<open>A step as a message carries it. \<open>selector\<close> is \<open>None\<close> where the field is \<open>null\<close> or
  missing.\<close>

record step =
  step_type :: string
  selector :: "string option"
  step_value :: jsval

text \<open>An event object: its constructor, its type, and the \<open>bubbles\<close>, \<open>cancelable\<close> and
  \<open>data\<close> it was made with.\<close>

record event =
  ev_ctor :: string
  ev_type :: string
  ev_bubbles :: bool
  ev_cancelable :: bool
  ev_data :: jsval

definition mk_event :: "string \<Rightarrow> string \<Rightarrow> event" where
  "mk_event ctor ty =
     \<lparr>ev_ctor = ctor, ev_type = ty, ev_bubbles = True, ev_cancelable = False, ev_data = Undefined\<rparr>"

text \<open>
  What \<open>executeStep\<close> does to the page, in the order it does it: the calls it makes on
  the element. \<open>AssignValue\<close> is the assignment \<open>element.value = v\<close>, which runs
  whatever setter the element has; \<open>NativeSetValue\<close> is the call of the prototype's own
  setter.
\<close>

datatype effect =
    ScrollIntoView nat
  | Highlight nat
  | Focus nat
  | NativeClick nat
  | AssignValue nat jsval
  | NativeSetValue nat jsval
  | AssignTextContent nat jsval
  | DispatchEvent nat event

text \<open>How a run of \<open>executeStep\<close> ends: the exception it rejects with (\<open>None\<close> when it
  resolves), the instant, and the effects so far.\<close>

record run =
  thrown :: "exn option"
  clock :: int
  effects :: "effect list"

text \<open>\<open>nativeInputValueSetter\<close>: the setter of \<open>HTMLInputElement.prototype\<close> if there is
  one, else that of \<open>HTMLTextAreaElement.prototype\<close>.\<close>

definition nativeInputValueSetter :: "runtime \<Rightarrow> (element \<Rightarrow> exn option) option" where
  "nativeInputValueSetter R =
     (case input_value_setter R of
        Some f \<Rightarrow> Some f
      | None \<Rightarrow> textarea_value_setter R)"

definition click_step :: "runtime \<Rightarrow> nat \<Rightarrow> int \<Rightarrow> run" where
  "click_step R m t =
     \<lparr>thrown = None,
      clock = sleep R 200 t,
      effects = [ScrollIntoView m, Highlight m, NativeClick m] @
        (if click_throws R m
         then [DispatchEvent m ((mk_event ''MouseEvent'' ''click'')\<lparr>ev_cancelable := True\<rparr>)]
         else [])\<rparr>"

definition input_step :: "runtime \<Rightarrow> step \<Rightarrow> nat \<Rightarrow> int \<Rightarrow> run" where
  "input_step R st m t =
     (let t' = sleep R 200 t;
          el = node (page_at R t') m;
          before = [ScrollIntoView m, Highlight m, Focus m]
      in if tagName el = ''SELECT''
         then \<lparr>thrown = None, clock = t',
               effects = before @
                 [AssignValue m (step_value st), DispatchEvent m (mk_event ''Event'' ''change'')]\<rparr>
         else if isContentEditable el
         then \<lparr>thrown = None, clock = t',
               effects = before @
                 [AssignTextContent m (step_value st),
                  DispatchEvent m ((mk_event ''InputEvent'' ''input'')\<lparr>ev_data := step_value st\<rparr>)]\<rparr>
         else (let events =
                     [DispatchEvent m (mk_event ''Event'' ''input''),
                      DispatchEvent m (mk_event ''Event'' ''change''),
                      DispatchEvent m (mk_event ''KeyboardEvent'' ''keyup'')]
               in case nativeInputValueSetter R of
                    None \<Rightarrow>
                      \<lparr>thrown = None, clock = t',
                       effects = before @ [AssignValue m (step_value st)] @ events\<rparr>
                  | Some setter \<Rightarrow>
                      (case setter el of
                         Some x \<Rightarrow> \<lparr>thrown = Some x, clock = t', effects = before\<rparr>
                       | None \<Rightarrow>
                           \<lparr>thrown = None, clock = t',
                            effects = before @ [NativeSetValue m (step_value st)] @ events\<rparr>)))"

text \<open>\<open>executeStep\<close> of the content script, started at the instant \<open>t\<close>. A step without
  a selector fails in \<open>selector.split\<close>.\<close>

definition executeStep :: "runtime \<Rightarrow> step \<Rightarrow> int \<Rightarrow> run" where
  "executeStep R st t =
     (case selector st of
        None \<Rightarrow> \<lparr>thrown = Some TypeError, clock = t, effects = []\<rparr>
      | Some sel \<Rightarrow>
          (case waitForElement R sel 10000 t of
             (None, t') \<Rightarrow>
               \<lparr>thrown = Some (Error (''Element not found: '' @ sel)), clock = t', effects = []\<rparr>
           | (Some m, t') \<Rightarrow>
               if step_type st = ''click'' then click_step R m t'
               else if step_type st = ''input'' then input_step R st m t'
               else \<lparr>thrown = Some (Error (''Unknown step type: '' @ step_type st)),
                     clock = t', effects = []\<rparr>))"

section \<open>Recording on and off (content script)\<close>

text \<open>
  The part of the document the shadow-root scan reads: a node with its identity, its
  \<open>shadowRoot\<close> (\<open>None\<close> for none, as for a shadow root itself) and its child elements.
\<close>

datatype dnode = DNode (nid: nat) (shadowRoot: "dnode option") (kids: "dnode list")

text \<open>\<open>root.querySelectorAll('*')\<close>: the elements below \<open>root\<close> in document order, not
  those inside shadow trees.\<close>

fun descendants :: "dnode \<Rightarrow> dnode list" where
  "descendants (DNode i sr cs) = concat (map (\<lambda>c. c # descendants c) cs)"

datatype target = Window | Document | ShadowRoot nat

datatype handler = handleClick | handleInput | handleChange

text \<open>A registered listener: target, event type, callback. All are registered for the
  capture phase.\<close>

type_synonym listener = "target \<times> string \<times> handler"

text \<open>The state of the content script and of the page it touches: the three variables
  of the script, the registered listeners, and whether the indicator element is in
  the document.\<close>

record capture =
  isRecording :: bool
  shadowObserver :: bool
  attachedShadowRoots :: "nat set"
  listeners :: "listener list"
  indicator :: bool

text \<open>\<open>addEventListener\<close> drops a listener that is registered already;
  \<open>removeEventListener\<close> removes it.\<close>

definition addEventListener :: "target \<Rightarrow> string \<Rightarrow> handler \<Rightarrow> capture \<Rightarrow> capture" where
  "addEventListener tg ty h s =
     (if (tg, ty, h) \<in> set (listeners s) then s
      else s\<lparr>listeners := listeners s @ [(tg, ty, h)]\<rparr>)"

definition removeEventListener :: "target \<Rightarrow> string \<Rightarrow> handler \<Rightarrow> capture \<Rightarrow> capture" where
  "removeEventListener tg ty h s = s\<lparr>listeners := removeAll (tg, ty, h) (listeners s)\<rparr>"

definition add_three :: "target \<Rightarrow> capture \<Rightarrow> capture" where
  "add_three tg s =
     addEventListener tg ''change'' handleChange
       (addEventListener tg ''input'' handleInput
         (addEventListener tg ''click'' handleClick s))"

definition remove_three :: "target \<Rightarrow> capture \<Rightarrow> capture" where
  "remove_three tg s =
     removeEventListener tg ''change'' handleChange
       (removeEventListener tg ''input'' handleInput
         (removeEventListener tg ''click'' handleClick s))"

text \<open>The two \<open>if\<close> blocks of \<open>attachToShadowRoots\<close> are the same but for the node they
  look at: \<open>attach sr s\<close> is the body before the recursive call.\<close>

definition attach :: "dnode \<Rightarrow> capture \<Rightarrow> capture" where
  "attach sr s =
     add_three (ShadowRoot (nid sr)) (s\<lparr>attachedShadowRoots := insert (nid sr) (attachedShadowRoots s)\<rparr>)"

function attachToShadowRoots :: "dnode \<Rightarrow> capture \<Rightarrow> capture" where
  "attachToShadowRoots root s =
     fold (\<lambda>el s'.
             case shadowRoot el of
               None \<Rightarrow> s'
             | Some sr \<Rightarrow>
                 if nid sr \<notin> attachedShadowRoots s' then attachToShadowRoots sr (attach sr s')
                 else s')
       (descendants root)
       (case shadowRoot root of
          None \<Rightarrow> s
        | Some sr \<Rightarrow>
            if nid sr \<notin> attachedShadowRoots s then attachToShadowRoots sr (attach sr s)
            else s)"
  by pat_completeness auto
termination
proof (relation "measure (\<lambda>(root, s). size root)")
  have kid: "c \<in> set cs \<Longrightarrow> size c < size (DNode i sr cs)" for c cs i sr
    by (induction cs) auto
  have below: "x \<in> set (descendants n) \<Longrightarrow> size x < size n" for x n
  proof (induction n arbitrary: x rule: descendants.induct)
    case (1 i sr cs)
    from "1.prems" obtain c where c: "c \<in> set cs" and x: "x = c \<or> x \<in> set (descendants c)"
      by auto
    have "size c < size (DNode i sr cs)"
      using c by (rule kid)
    moreover have "x \<in> set (descendants c) \<Longrightarrow> size x < size c"
      using "1.IH" c by blast
    ultimately show ?case using x by auto
  qed
  have shadow: "shadowRoot n = Some sr \<Longrightarrow> size sr < size n" for n sr
    by (cases n) auto
  show "wf (measure (\<lambda>(root, s). size root))" by simp
  show "((sr, attach sr s), root, s) \<in> measure (\<lambda>(root, s). size root)"
    if "shadowRoot root = Some sr" for root s sr
    using shadow [OF that] by simp
  show "((sr, attach sr s'), root, s) \<in> measure (\<lambda>(root, s). size root)"
    if "el \<in> set (descendants root)" and "shadowRoot el = Some sr" for root s s' el sr
    using shadow [OF that(2)] below [OF that(1)] by simp
qed


text \<open>\<open>document.body\<close>, and whether appending the indicator to it throws.\<close>

record document =
  body :: "dnode option"
  append_throws :: bool

text \<open>\<open>observeShadowRoots\<close>: the scan of the body, then a new observer in the variable,
  then \<open>observe(document.body, \<dots>)\<close>, which throws a \<open>TypeError\<close> for no body.\<close>

definition observeShadowRoots :: "document \<Rightarrow> capture \<Rightarrow> exn option \<times> capture" where
  "observeShadowRoots D s =
     (case body D of
        None \<Rightarrow> (Some TypeError, s\<lparr>shadowObserver := True\<rparr>)
      | Some b \<Rightarrow> (None, (attachToShadowRoots b s)\<lparr>shadowObserver := True\<rparr>))"

text \<open>The callback of the observer, on the element nodes a batch of mutations added.\<close>

definition on_mutations :: "dnode list \<Rightarrow> capture \<Rightarrow> capture" where
  "on_mutations added s = fold attachToShadowRoots added s"

definition showRecordingIndicator :: "document \<Rightarrow> capture \<Rightarrow> capture" where
  "showRecordingIndicator D s =
     (if body D = None then s
      else if indicator s then s
      else if append_throws D then s
      else s\<lparr>indicator := True\<rparr>)"

definition hideRecordingIndicator :: "capture \<Rightarrow> capture" where
  "hideRecordingIndicator s = (if indicator s then s\<lparr>indicator := False\<rparr> else s)"

definition startRecording :: "document \<Rightarrow> capture \<Rightarrow> exn option \<times> capture" where
  "startRecording D s =
     (if isRecording s then (None, s)
      else (case observeShadowRoots D
                   (add_three Document (add_three Window (s\<lparr>isRecording := True\<rparr>))) of
              (Some x, s') \<Rightarrow> (Some x, s')
            | (None, s') \<Rightarrow> (None, showRecordingIndicator D s')))"

definition stopRecording :: "capture \<Rightarrow> capture" where
  "stopRecording s =
     (if \<not> isRecording s then s
      else (let s1 = remove_three Document (remove_three Window (s\<lparr>isRecording := False\<rparr>));
                s2 = (if shadowObserver s1 then s1\<lparr>shadowObserver := False\<rparr> else s1)
            in hideRecordingIndicator s2))"

text \<open>The script as loaded: not recording, no observer, nothing attached.\<close>

definition loaded :: capture where
  "loaded = \<lparr>isRecording = False, shadowObserver = False, attachedShadowRoots = {},
     listeners = [], indicator = False\<rparr>"

section \<open>Playback (background script)\<close>

text \<open>
  The background script talks to the browser through \<open>chrome.*\<close> calls. The state of
  the browser is a value of any type \<open>'w\<close>, and the calls are the fields of
  \<open>chrome\<close>, each from a tab id and a state to an answer and the next state:
  \<^item> \<open>ping\<close>: the \<open>PING\<close> message was answered with \<open>pong\<close>;
  \<^item> \<open>executeScript\<close>: injecting the content script succeeded;
  \<^item> \<open>tabs_update\<close>: the message of the rejection, if it rejects;
  \<^item> \<open>race_send\<close>: how the race between the \<open>EXECUTE_STEP\<close> message and the 15 s timer
    ends; \<open>sendMessage\<close>: how the message alone ends;
  \<^item> \<open>bg_sleep\<close>: \<open>sleep(ms)\<close>; \<open>waitForTabLoad\<close>; \<open>valid_url\<close>: \<open>isValidUrl\<close>, which
    rests on the browser's URL parser.
\<close>

record response =
  success :: bool
  resp_error :: "string option"

datatype sent = TimedOut | Rejected string | Replied "response option"

record 'w chrome =
  ping :: "nat \<Rightarrow> 'w \<Rightarrow> bool \<times> 'w"
  executeScript :: "nat \<Rightarrow> 'w \<Rightarrow> bool \<times> 'w"
  tabs_update :: "nat \<Rightarrow> string \<Rightarrow> 'w \<Rightarrow> string option \<times> 'w"
  waitForTabLoad :: "nat \<Rightarrow> 'w \<Rightarrow> 'w"
  race_send :: "nat \<Rightarrow> step \<Rightarrow> 'w \<Rightarrow> sent \<times> 'w"
  sendMessage :: "nat \<Rightarrow> step \<Rightarrow> 'w \<Rightarrow> sent \<times> 'w"
  bg_sleep :: "int \<Rightarrow> 'w \<Rightarrow> 'w"
  valid_url :: "string \<Rightarrow> bool"

text \<open>Exceptions of the background script are \<open>Error\<close>s read through their \<open>message\<close>:
  \<open>Some msg\<close> is a rejection with that message, \<open>None\<close> is success.\<close>

definition ensureContentScript :: "'w chrome \<Rightarrow> nat \<Rightarrow> 'w \<Rightarrow> string option \<times> 'w" where
  "ensureContentScript C tabId w =
     (case ping C tabId w of
        (True, w1) \<Rightarrow> (None, w1)
      | (False, w1) \<Rightarrow>
          (case executeScript C tabId w1 of
             (True, w2) \<Rightarrow> (None, bg_sleep C 150 w2)
           | (False, w2) \<Rightarrow>
               (Some ''Cannot access this page. Please navigate to a regular website.'', w2)))"

text \<open>\<open>s.includes(sub)\<close>\<close>

fun str_includes :: "string \<Rightarrow> string \<Rightarrow> bool" where
  "str_includes [] sub = (sub = [])"
| "str_includes (c # cs) sub = (take (length sub) (c # cs) = sub \<or> str_includes cs sub)"

text \<open>
  \<open>parseInt(v)\<close> with no radix: white space is skipped, then a sign, then \<open>0x\<close> or \<open>0X\<close>
  selects base 16, then the digits up to the first character that is none; \<open>None\<close> is
  \<open>NaN\<close>. The result is the exact integer (a JavaScript number is exact up to
  \<open>2^53\<close>).
\<close>

definition digit_of :: "char \<Rightarrow> nat" where
  "digit_of c =
     (case map_of (zip ''0123456789abcdefABCDEF''
             [0, 1, 2, 3, 4, 5, 6, 7, 8, 9, 10, 11, 12, 13, 14, 15, 10, 11, 12, 13, 14, 15]) c of
        Some d \<Rightarrow> d
      | None \<Rightarrow> 0)"

definition digits_value :: "nat \<Rightarrow> string \<Rightarrow> nat" where
  "digits_value radix ds = foldl (\<lambda>acc c. acc * radix + digit_of c) 0 ds"

definition parse_unsigned :: "string \<Rightarrow> nat option" where
  "parse_unsigned s =
     (if startsWith s ''0x'' \<or> startsWith s ''0X''
      then (let ds = takeWhile isHex (drop 2 s)
            in if ds = [] then None else Some (digits_value 16 ds))
      else (let ds = takeWhile isDigit s
            in if ds = [] then None else Some (digits_value 10 ds)))"

definition parseInt :: "jsval \<Rightarrow> int option" where
  "parseInt v =
     (case dropWhile isSpace (to_string v) of
        [] \<Rightarrow> None
      | c # cs \<Rightarrow>
          if c = CHR ''-'' then map_option (\<lambda>n. - int n) (parse_unsigned cs)
          else if c = CHR ''+'' then map_option int (parse_unsigned cs)
          else map_option int (parse_unsigned (c # cs)))"

text \<open>\<open>parseInt(step.value) || 1000\<close>: \<open>NaN\<close> and \<open>0\<close> are falsy.\<close>

definition waitTime :: "jsval \<Rightarrow> int" where
  "waitTime v =
     (case parseInt v of
        None \<Rightarrow> 1000
      | Some n \<Rightarrow> if n = 0 then 1000 else n)"

text \<open>The \<open>click\<close>/\<open>input\<close> case of \<open>executeStep\<close>: what the \<open>try\<close> block throws (the
  rejection of the message, or the \<open>Error\<close> made from an answer without success), then
  the \<open>catch\<close> with its one retry.\<close>

definition failure_of :: "sent \<Rightarrow> string \<Rightarrow> string option" where
  "failure_of r dflt =
     (case r of
        TimedOut \<Rightarrow> Some ''Step timed out after 15s''
      | Rejected msg \<Rightarrow> Some msg
      | Replied None \<Rightarrow> Some dflt
      | Replied (Some resp) \<Rightarrow>
          if success resp then None
          else (case resp_error resp of
                  None \<Rightarrow> Some dflt
                | Some e \<Rightarrow> if e = [] then Some dflt else Some e))"

definition send_step :: "'w chrome \<Rightarrow> nat \<Rightarrow> step \<Rightarrow> 'w \<Rightarrow> string option \<times> 'w" where
  "send_step C tabId st w =
     (case ensureContentScript C tabId w of
        (Some msg, w1) \<Rightarrow> (Some msg, w1)
      | (None, w1) \<Rightarrow>
          (case race_send C tabId st w1 of
             (r, w2) \<Rightarrow>
               (case failure_of r ''Step execution failed'' of
                  None \<Rightarrow> (None, w2)
                | Some msg \<Rightarrow>
                    if str_includes msg ''Receiving end does not exist''
                    then (case ensureContentScript C tabId w2 of
                            (Some msg', w3) \<Rightarrow> (Some msg', w3)
                          | (None, w3) \<Rightarrow>
                              (case sendMessage C tabId st (bg_sleep C 200 w3) of
                                 (r', w4) \<Rightarrow>
                                   (failure_of r' ''Step execution failed after retry'', w4)))
                    else (Some msg, w2))))"

text \<open>\<open>executeStep\<close> of the background script. An unknown type is logged and the step
  succeeds.\<close>

definition bg_executeStep :: "'w chrome \<Rightarrow> nat \<Rightarrow> step \<Rightarrow> 'w \<Rightarrow> string option \<times> 'w" where
  "bg_executeStep C tabId st w =
     (if step_type st = ''navigate''
      then (if falsy (step_value st) \<or> \<not> valid_url C (to_string (step_value st))
            then (Some (''Invalid URL: '' @ to_string (step_value st)), w)
            else (case tabs_update C tabId (to_string (step_value st)) w of
                    (Some msg, w1) \<Rightarrow> (Some msg, w1)
                  | (None, w1) \<Rightarrow> ensureContentScript C tabId (waitForTabLoad C tabId w1)))
      else if step_type st = ''click'' \<or> step_type st = ''input''
      then send_step C tabId st w
      else if step_type st = ''wait''
      then (None, bg_sleep C (min (waitTime (step_value st)) 30000) w)
      else (None, w))"

record workflow =
  wf_id :: string
  wf_name :: string
  steps :: "step list"
  slowMode :: bool

record tab =
  tab_id :: nat
  tab_url :: "string option"

text \<open>What \<open>handlePlayWorkflow\<close> resolves with.\<close>

record report =
  rep_success :: bool
  rep_error :: "string option"
  stepIndex :: "nat option"

definition isRestrictedUrl :: "string option \<Rightarrow> bool" where
  "isRestrictedUrl url =
     (case url of
        None \<Rightarrow> True
      | Some u \<Rightarrow>
          if u = [] then True
          else list_ex (\<lambda>prefix. startsWith (toLowerCase u) prefix)
                 [''chrome://'', ''chrome-extension://'', ''about:'', ''edge://'', ''brave://'',
                  ''opera://'', ''vivaldi://'', ''firefox:'', ''moz-extension://'', ''devtools://'',
                  ''view-source:'', ''data:'', ''javascript:''])"

text \<open>The \<open>for\<close> loop of \<open>handlePlayWorkflow\<close>, on the steps from index \<open>i\<close> on.\<close>

fun play_from :: "'w chrome \<Rightarrow> nat \<Rightarrow> int \<Rightarrow> nat \<Rightarrow> step list \<Rightarrow> 'w \<Rightarrow> report \<times> 'w" where
  "play_from C tabId stepDelay i [] w =
     (\<lparr>rep_success = True, rep_error = None, stepIndex = None\<rparr>, w)"
| "play_from C tabId stepDelay i (st # rest) w =
     (case bg_executeStep C tabId st w of
        (Some msg, w') \<Rightarrow>
          (\<lparr>rep_success = False,
            rep_error = Some (''Step '' @ show_nat (i + 1) @ '' failed: '' @ msg),
            stepIndex = Some i\<rparr>, w')
      | (None, w') \<Rightarrow> play_from C tabId stepDelay (i + 1) rest (bg_sleep C stepDelay w'))"

text \<open>\<open>handlePlayWorkflow\<close>, on the stored workflows and the active tab (\<open>None\<close> when the
  query finds none, and reading \<open>tab.id\<close> throws). \<open>Inl\<close> is the exception it rejects
  with.\<close>

definition handlePlayWorkflow ::
  "'w chrome \<Rightarrow> workflow list \<Rightarrow> tab option \<Rightarrow> string \<Rightarrow> 'w \<Rightarrow> (exn + report) \<times> 'w" where
  "handlePlayWorkflow C workflows active workflowId w =
     (case find (\<lambda>flow. wf_id flow = workflowId) workflows of
        None \<Rightarrow> (Inl (Error ''Workflow not found''), w)
      | Some flow \<Rightarrow>
          (case steps flow of
             [] \<Rightarrow> (Inl (Error ''Workflow has no steps to play''), w)
           | first # others \<Rightarrow>
               (case active of
                  None \<Rightarrow> (Inl TypeError, w)
                | Some tb \<Rightarrow>
                    if isRestrictedUrl (tab_url tb) \<and> step_type first \<noteq> ''navigate''
                    then (Inl (Error (''Cannot play on this page. The workflow should start '' @
                            ''with a navigate step, or navigate to a regular website first.'')), w)
                    else (case play_from C (tab_id tb) (if slowMode flow then 1500 else 300) 0
                                 (steps flow) w of
                            (r, w') \<Rightarrow> (Inr r, w')))))"


section \<open>A browser for the examples\<close>

text \<open>
  The theorems below hold for every page and every runtime. Their examples need a
  browser to run on: pages given as a list of elements in document order (element
  \<open>n\<close> is the \<open>n\<close>-th of the list, and element 0 is the body), with a selector engine
  that knows the type selector and the id selector of a plain name and throws a
  \<open>SyntaxError\<close> on every other string, as every engine does on \<open>:text(\<dots>)\<close>, which is
  no CSS.
\<close>

function show_hex :: "nat \<Rightarrow> string" where
  "show_hex n =
     (if n < 16 then [''0123456789abcdef'' ! n]
      else show_hex (n div 16) @ [''0123456789abcdef'' ! (n mod 16)])"
  by pat_completeness auto
termination
  by (relation "measure id") auto

declare show_hex.simps [simp del]

definition as_code_point :: "char \<Rightarrow> string" where
  "as_code_point c = bslash # show_hex (of_char c) @ '' ''"

text \<open>\<open>CSS.escape\<close>, as CSSOM defines the serialization of an identifier, on the
  characters from index \<open>i\<close> of \<open>whole\<close>. U+FFFD is written as its three bytes.\<close>

fun css_escape_from :: "nat \<Rightarrow> string \<Rightarrow> string \<Rightarrow> string" where
  "css_escape_from i whole [] = []"
| "css_escape_from i whole (c # cs) =
     (if c = CHR 0x00 then [CHR 0xEF, CHR 0xBF, CHR 0xBD]
      else if (of_char c :: nat) \<le> 31 \<or> c = CHR 0x7F then as_code_point c
      else if i = 0 \<and> isDigit c then as_code_point c
      else if i = 1 \<and> isDigit c \<and> take 1 whole = ''-'' then as_code_point c
      else if i = 0 \<and> c = CHR ''-'' \<and> length whole = 1 then [bslash, c]
      else if (of_char c :: nat) \<ge> 128 \<or> c = CHR ''-'' \<or> c = CHR ''_'' \<or> isDigit c \<or> isAlpha c
      then [c]
      else [bslash, c]) @ css_escape_from (i + 1) whole cs"

definition CSS_escape :: "string \<Rightarrow> string" where
  "CSS_escape s = css_escape_from 0 s s"

definition plain_name :: "string \<Rightarrow> bool" where
  "plain_name s =
     (case s of
        [] \<Rightarrow> False
      | c # cs \<Rightarrow> (isAlpha c \<or> c = CHR ''_'') \<and> list_all (\<lambda>d. isWordChar d \<or> d = CHR ''-'') cs)"

definition simple_engine :: "element list \<Rightarrow> string \<Rightarrow> exn + nat list" where
  "simple_engine els sel =
     (case sel of
        [] \<Rightarrow> Inl SyntaxError
      | c # name \<Rightarrow>
          if c = CHR ''#'' \<and> plain_name name
          then Inr (filter (\<lambda>n. el_id (els ! n) = name) [0..<length els])
          else if plain_name sel
          then Inr (filter (\<lambda>n. toLowerCase (tagName (els ! n)) = toLowerCase sel) [0..<length els])
          else Inl SyntaxError)"

text \<open>An HTML element with nothing set, laid out in the body as a child of it.\<close>

definition html :: "string \<Rightarrow> element" where
  "html tag =
     \<lparr>tagName = tag, el_id = [], attributes = [], el_name = [], className = Some [],
      placeholder = [], textContent = [], parentElement = Some 0, display = ''block'',
      visibility = ''visible'', opacity = ''1'', offsetParent = Some 0,
      isContentEditable = False\<rparr>"

definition html_body :: element where
  "html_body = (html ''BODY'')\<lparr>parentElement := None, offsetParent := None\<rparr>"

text \<open>The page of a list of elements. A reference past the list reads as a detached
  \<open>DIV\<close>. The examples have no link, so the URL parser is only given for a reference
  that starts at the root, whose path is the part before \<open>?\<close> and \<open>#\<close>.\<close>

definition page_of :: "element list \<Rightarrow> page" where
  "page_of els =
     \<lparr>node = (\<lambda>n. if n < length els then els ! n
                  else (html ''DIV'')\<lparr>parentElement := None, offsetParent := None\<rparr>),
      children = (\<lambda>p. filter (\<lambda>n. parentElement (els ! n) = Some p) [0..<length els]),
      querySelectorAll = simple_engine els,
      css_escape = CSS_escape,
      url_pathname = (\<lambda>href. if startsWith href ''/''
                               then Inr (takeWhile (\<lambda>c. c \<noteq> CHR ''?'' \<and> c \<noteq> CHR ''#'') href)
                               else Inl TypeError)\<rparr>"

text \<open>
  A runtime on a page that does not change: timers fire on time, no call throws, and
  the two \<open>value\<close> setters are those of a browser, where the setter of an interface
  throws a \<open>TypeError\<close> when called on an object that is no instance of the interface
  (Web IDL): the setter of \<open>HTMLInputElement.prototype\<close> takes \<open>INPUT\<close> elements only.
\<close>

definition browser :: "page \<Rightarrow> runtime" where
  "browser P =
     \<lparr>page_at = (\<lambda>t. P), lag = (\<lambda>t. 0), scroll_throws = (\<lambda>m. False),
      click_throws = (\<lambda>m. False), focus_throws = (\<lambda>m. False),
      input_value_setter = Some (\<lambda>el. if tagName el = ''INPUT'' then None else Some TypeError),
      textarea_value_setter =
        Some (\<lambda>el. if tagName el = ''TEXTAREA'' then None else Some TypeError)\<rparr>"

text \<open>A button with a stable id and a test marker.\<close>

definition submit_page :: page where
  "submit_page = page_of [html_body,
     (html ''BUTTON'')\<lparr>el_id := ''submit-btn'', attributes := [(''id'', ''submit-btn''),
        (''data-testid'', ''submit'')], textContent := ''Submit''\<rparr>]"

text \<open>The same button with a generated id.\<close>

definition uuid_page :: page where
  "uuid_page = page_of [html_body,
     (html ''BUTTON'')\<lparr>el_id := ''a1b2c3d4-e5f6-7890-abcd-1234567890ab'',
        attributes := [(''id'', ''a1b2c3d4-e5f6-7890-abcd-1234567890ab''),
        (''data-testid'', ''submit'')], textContent := ''Submit''\<rparr>]"

text \<open>A background script whose browser state is the clock: every tab answers the
  ping and every message with success, and a sleep moves the clock.\<close>

definition ticking :: "int chrome" where
  "ticking =
     \<lparr>ping = (\<lambda>tabId t. (True, t)),
      executeScript = (\<lambda>tabId t. (True, t)),
      tabs_update = (\<lambda>tabId url t. (None, t)),
      waitForTabLoad = (\<lambda>tabId t. t + 500),
      race_send = (\<lambda>tabId st t. (Replied (Some \<lparr>success = True, resp_error = None\<rparr>), t)),
      sendMessage = (\<lambda>tabId st t. (Replied (Some \<lparr>success = True, resp_error = None\<rparr>), t)),
      bg_sleep = (\<lambda>ms t. t + max ms 0),
      valid_url = (\<lambda>u. startsWith u ''http://'' \<or> startsWith u ''https://'')\<rparr>"

section \<open>Properties\<close>

subsection \<open>The order of the blocks\<close>

lemma generateSelector_first_hit:
  "generateSelector P e = first_hit (blocks P e) (getCssPath P e)"
  by (simp add: blocks_def generateSelector_def from_test_marker_def from_name_def from_href_def
      from_text_def from_aria_label_def from_title_def from_classes_def from_placeholder_def)

lemma first_hit_nth:
  "k < length rs \<Longrightarrow> rs ! k = Inr (Some L) \<Longrightarrow> (\<forall>j<k. rs ! j = Inr None) \<Longrightarrow>
   first_hit rs rest = Inr L"
proof (induction rs arbitrary: k)
  case Nil
  then show ?case by simp
next
  case (Cons r rs)
  show ?case
  proof (cases k)
    case 0
    with Cons.prems show ?thesis by (simp add: or_else_def)
  next
    case (Suc k')
    have r: "r = Inr None" using Cons.prems(3) Suc by force
    have "first_hit rs rest = Inr L"
    proof (rule Cons.IH)
      show "k' < length rs" using Cons.prems(1) Suc by simp
      show "rs ! k' = Inr (Some L)" using Cons.prems(2) Suc by simp
      show "\<forall>j<k'. rs ! j = Inr None" using Cons.prems(3) Suc by force
    qed
    with r show ?thesis by (simp add: or_else_def)
  qed
qed

lemma first_hit_none:
  "(\<forall>j<length rs. rs ! j = Inr None) \<Longrightarrow> first_hit rs rest = rest"
proof (induction rs)
  case Nil
  then show ?case by simp
next
  case (Cons r rs)
  have "r = Inr None" using Cons.prems by force
  moreover have "first_hit rs rest = rest" using Cons.IH Cons.prems by force
  ultimately show ?case by (simp add: or_else_def)
qed

lemma by_id_stable:
  "el_id (node P e) \<noteq> [] \<Longrightarrow> isStableId (el_id (node P e)) \<Longrightarrow>
   by_id P e = Some (''#'' @ css_escape P (el_id (node P e)))"
  by (simp add: by_id_def)

text \<open>
  C2. An element with an id that passes the stability filter gets the id selector
  \<open>#<escaped id>\<close>, whatever test marker it carries, and never an attribute selector.
  More generally the blocks are tried in their order: the function returns what the
  first block gives that does not fall through, and the CSS path when all nine fall
  through.
\<close>

theorem id_before_test_marker:
  "(el_id (node P e) \<noteq> [] \<and> isStableId (el_id (node P e)) \<longrightarrow>
      generateSelector P e = Inr (''#'' @ css_escape P (el_id (node P e))) \<and>
      (\<forall>attr v. generateSelector P e \<noteq> Inr (attr_selector P [] attr v))) \<and>
   (\<forall>k L. k < length (blocks P e) \<and> blocks P e ! k = Inr (Some L) \<and>
      (\<forall>j<k. blocks P e ! j = Inr None) \<longrightarrow> generateSelector P e = Inr L) \<and>
   ((\<forall>j<length (blocks P e). blocks P e ! j = Inr None) \<longrightarrow>
      generateSelector P e = getCssPath P e)"
proof (intro conjI impI allI)
  assume a: "el_id (node P e) \<noteq> [] \<and> isStableId (el_id (node P e))"
  then show g: "generateSelector P e = Inr (''#'' @ css_escape P (el_id (node P e)))"
    by (simp add: generateSelector_def by_id_def or_else_def)
  fix attr v
  show "generateSelector P e \<noteq> Inr (attr_selector P [] attr v)"
    by (simp add: g attr_selector_def)
next
  fix k L
  assume "k < length (blocks P e) \<and> blocks P e ! k = Inr (Some L) \<and>
      (\<forall>j<k. blocks P e ! j = Inr None)"
  then show "generateSelector P e = Inr L"
    using first_hit_nth [of k "blocks P e" L "getCssPath P e"]
    by (simp add: generateSelector_first_hit)
next
  assume "\<forall>j<length (blocks P e). blocks P e ! j = Inr None"
  then show "generateSelector P e = getCssPath P e"
    using first_hit_none [of "blocks P e" "getCssPath P e"]
    by (simp add: generateSelector_first_hit)
qed

text \<open>The button with id \<open>submit-btn\<close> and \<open>data-testid="submit"\<close> gets \<open>#submit-btn\<close>;
  with a generated id instead, the test marker is the first block that applies.\<close>

theorem id_before_test_marker_witness:
  "el_id (node submit_page 1) = ''submit-btn'' \<and> isStableId ''submit-btn'' \<and>
   getAttribute (node submit_page 1) ''data-testid'' = Some ''submit'' \<and>
   generateSelector submit_page 1 = Inr ''#submit-btn'' \<and>
   generateSelector submit_page 1 \<noteq> Inr (attr_selector submit_page [] ''data-testid'' ''submit'') \<and>
   blocks uuid_page 1 ! 0 = Inr None \<and>
   blocks uuid_page 1 ! 1 = Inr (Some (attr_selector uuid_page [] ''data-testid'' ''submit'')) \<and>
   generateSelector uuid_page 1 = Inr (attr_selector uuid_page [] ''data-testid'' ''submit'')"
proof -
  have i: "el_id (node submit_page 1) = ''submit-btn''" by code_simp
  have s: "isStableId ''submit-btn''" by code_simp
  have t: "getAttribute (node submit_page 1) ''data-testid'' = Some ''submit''" by code_simp
  have c: "CSS_escape ''submit-btn'' = ''submit-btn''" by code_simp
  have ce: "css_escape submit_page = CSS_escape" by (simp add: submit_page_def page_of_def)
  have b0: "blocks uuid_page 1 ! 0 = Inr None" by code_simp
  have b1: "blocks uuid_page 1 ! 1 = Inr (Some (attr_selector uuid_page [] ''data-testid'' ''submit''))"
    by code_simp
  have len: "1 < length (blocks uuid_page 1)" by (simp add: blocks_def)
  have a: "el_id (node submit_page 1) \<noteq> [] \<and> isStableId (el_id (node submit_page 1))"
    using i s by simp
  note first = id_before_test_marker [of submit_page 1, THEN conjunct1, rule_format, OF a]
  have g: "generateSelector submit_page 1 = Inr ''#submit-btn''"
    using first [THEN conjunct1] i c ce by simp
  have n: "generateSelector submit_page 1 \<noteq> Inr (attr_selector submit_page [] ''data-testid'' ''submit'')"
    using first [THEN conjunct2] by blast
  have pre: "1 < length (blocks uuid_page 1) \<and>
      blocks uuid_page 1 ! 1 = Inr (Some (attr_selector uuid_page [] ''data-testid'' ''submit'')) \<and>
      (\<forall>j<1. blocks uuid_page 1 ! j = Inr None)"
    using len b0 b1 by simp
  have u: "generateSelector uuid_page 1 = Inr (attr_selector uuid_page [] ''data-testid'' ''submit'')"
    using id_before_test_marker [of uuid_page 1, THEN conjunct2, THEN conjunct1, rule_format, OF pre] .
  show ?thesis using i s t g n b0 b1 u by simp
qed

end
